theory Spec2Isabelle
  imports Complex_Main "HOL-Library.Sublist"
begin

section \<open>The collaborators of the notebooks\<close>

text \<open>
  The notebooks \<^verbatim>\<open>Part 3 - Training Neural Networks\<close> and
  \<^verbatim>\<open>Part 5 - Inference and Validation\<close> arrange calls to a tensor library. The
  calls are taken as parameters of the model: what the network computes, what the loss
  is, what gradient the backward pass finds and what the optimizer does with it are
  fields of a \<open>framework\<close>. Python floats and tensor entries are idealised as real
  numbers, so rounding, infinities and NaN are outside the model. Two calls decide a
  discrete outcome, the predicted class, and are not idealised: \<open>torch.exp\<close>, which on
  32-bit floats sends neighbouring numbers to one number, and \<open>topk\<close>, whose choice among
  equal entries the library leaves open. Both are fields of the \<open>framework\<close> too, and
  what a theorem needs of them is a hypothesis of that theorem.

  Python raises where it cannot go on: a division by \<open>len(loader) = 0\<close> is a
  \<open>ZeroDivisionError\<close>, a \<open>view\<close> to a shape with another number of elements and a
  \<open>topk(1)\<close> along an empty dimension are a \<open>RuntimeError\<close>.
\<close>

datatype error = ZeroDivisionError | RuntimeError

text \<open>The flag \<open>model.training\<close>: \<open>model.train()\<close> sets it, \<open>model.eval()\<close> clears it.\<close>

datatype mode = Training | Evaluation

text \<open>
  The calls into the library that a run makes, in order. \<open>Forward m g\<close> is a call
  \<open>model(images)\<close> made while \<open>model.training\<close> is \<open>m\<close>; \<open>g\<close> tells whether
  gradients were tracked (\<open>False\<close> inside \<open>with torch.no_grad()\<close>).
\<close>

datatype event = ZeroGrad | Forward mode bool | Backward | OptimizerStep

text \<open>
  \<^item> \<open>forward p m r x\<close>: the log-probabilities \<open>model(x)\<close> (one row per example,
    one entry per class) under parameters \<open>p\<close> and mode \<open>m\<close>, and the random
    generator's state after the call (dropout draws from it);
  \<^item> \<open>criterion\<close>: the loss of a batch of predictions against its labels;
  \<^item> \<open>gradient p m r x y\<close>: what \<open>loss.backward()\<close> adds to the gradient
    accumulators, for the loss of the forward pass made from \<open>p\<close>, \<open>m\<close>, \<open>r\<close> on the
    batch \<open>(x, y)\<close>;
  \<^item> \<open>update\<close>: one \<open>optimizer.step()\<close>, from the optimizer's own state, the
    parameters and the accumulated gradients;
  \<^item> \<open>view\<close>: \<open>images.view(images.shape[0], -1)\<close>;
  \<^item> \<open>torch_exp\<close>: \<open>torch.exp\<close> on one entry of a tensor;
  \<^item> \<open>topk\<close>: the position that \<open>row.topk(1)\<close> returns for a row with at least
    one entry.
\<close>

record ('p, 'g, 'o, 'r, 'x) framework =
  forward :: "'p \<Rightarrow> mode \<Rightarrow> 'r \<Rightarrow> 'x \<Rightarrow> real list list \<times> 'r"
  criterion :: "real list list \<Rightarrow> nat list \<Rightarrow> real"
  gradient :: "'p \<Rightarrow> mode \<Rightarrow> 'r \<Rightarrow> 'x \<Rightarrow> nat list \<Rightarrow> 'g"
  update :: "'o \<Rightarrow> 'p \<Rightarrow> 'g \<Rightarrow> 'p \<times> 'o"
  view :: "'x \<Rightarrow> 'x"
  torch_exp :: "real \<Rightarrow> real"
  topk :: "real list \<Rightarrow> nat"

text \<open>
  What a cell's loop reads and writes: the model's parameters, their gradient
  accumulators (\<open>p.grad\<close>, added to by every backward pass), the optimizer's state, the
  random generator, \<open>model.training\<close>, the two histories, the printed lines and the
  calls made so far.
\<close>

record ('p, 'g, 'o, 'r) session =
  params :: 'p
  grads :: 'g
  opt_state :: 'o
  rng :: 'r
  training :: mode
  train_losses :: "real list"
  test_losses :: "real list"
  stdout :: "string list"
  trace :: "event list"

text \<open>A batch is \<open>(images, labels)\<close>; a loader yields the batches of one pass.\<close>

type_synonym 'x batch = "'x \<times> nat list"

section \<open>Python's formatting\<close>

text \<open>The character of a decimal digit \<open>d < 10\<close>.\<close>

definition digit :: "nat \<Rightarrow> char" where
  "digit d = ''0123456789'' ! d"

text \<open>\<open>str(n)\<close> of a non-negative integer.\<close>

fun str_nat :: "nat \<Rightarrow> string" where
  "str_nat n = (if n < 10 then [digit n] else str_nat (n div 10) @ [digit (n mod 10)])"

declare str_nat.simps [simp del]

text \<open>Rounding to the nearest integer, a tie going to the even one.\<close>

definition round_half_even :: "real \<Rightarrow> int" where
  "round_half_even x =
     (let f = \<lfloor>x\<rfloor>; d = x - of_int f in
      if d < 1 / 2 then f else if 1 / 2 < d then f + 1 else if even f then f else f + 1)"

text \<open>\<open>"{:.3f}".format(x)\<close>: sign, integer part, point, three decimals.\<close>

definition format_3f :: "real \<Rightarrow> string" where
  "format_3f x =
     (let n = nat (round_half_even (\<bar>x\<bar> * 1000)) in
      (if x < 0 then ''-'' else '''') @ str_nat (n div 1000) @ ''.'' @
      [digit (n div 100 mod 10), digit (n div 10 mod 10), digit (n mod 10)])"

text \<open>\<open>print(a, b, ...)\<close> writes its arguments with one space between them.\<close>

fun print_args :: "string list \<Rightarrow> string" where
  "print_args [] = []"
| "print_args [a] = a"
| "print_args (a # b # bs) = a @ '' '' @ print_args (b # bs)"

text \<open>The line printed at the end of epoch \<open>e\<close> (counted from 0) in Part 5.\<close>

definition report_line :: "nat \<Rightarrow> nat \<Rightarrow> real \<Rightarrow> real \<Rightarrow> real \<Rightarrow> string" where
  "report_line e epochs train_loss test_loss accuracy =
     print_args
       [''Epoch: '' @ str_nat (e + 1) @ ''/'' @ str_nat epochs @ ''.. '',
        ''Training Loss: '' @ format_3f train_loss @ ''.. '',
        ''Test Loss: '' @ format_3f test_loss @ ''.. '',
        ''Test Accuracy: '' @ format_3f accuracy]"

text \<open>\<open>a / n\<close> for a count \<open>n\<close>.\<close>

definition py_div :: "real \<Rightarrow> nat \<Rightarrow> error + real" where
  "py_div a n = (if n = 0 then Inl ZeroDivisionError else Inr (a / real n))"

section \<open>The accuracy of a batch\<close>

text \<open>
  \<open>row.topk(1)\<close>: along an empty row there is no entry to return and the call raises;
  otherwise the position is the library's choice.
\<close>

definition topk1 :: "('p, 'g, 'o, 'r, 'x) framework \<Rightarrow> real list \<Rightarrow> error + nat" where
  "topk1 fw row = (if row = [] then Inl RuntimeError else Inr (topk fw row))"

text \<open>\<open>ps.topk(1, dim=1)\<close>: one position per row.\<close>

fun topk1_rows ::
  "('p, 'g, 'o, 'r, 'x) framework \<Rightarrow> real list list \<Rightarrow> error + nat list" where
  "topk1_rows fw [] = Inr []"
| "topk1_rows fw (r # rs) =
     (case topk1 fw r of
        Inl err \<Rightarrow> Inl err
      | Inr i \<Rightarrow> (case topk1_rows fw rs of Inl err \<Rightarrow> Inl err | Inr js \<Rightarrow> Inr (i # js)))"

text \<open>
  \<^verbatim>\<open>ps = torch.exp(log_ps)
  _, top_class = ps.topk(1, dim=1)
  equals = top_class == labels.view(*top_class.shape)\<close>
\<close>

definition batch_equals ::
  "('p, 'g, 'o, 'r, 'x) framework \<Rightarrow> real list list \<Rightarrow> nat list \<Rightarrow> error + bool list" where
  "batch_equals fw log_ps labels =
     (let ps = map (map (torch_exp fw)) log_ps in
      case topk1_rows fw ps of
        Inl err \<Rightarrow> Inl err
      | Inr top_classes \<Rightarrow>
          if length labels = length top_classes
          then Inr (map2 (=) top_classes labels)
          else Inl RuntimeError)"

text \<open>
  \<open>torch.mean\<close> of a tensor with at least one entry. (Of an empty tensor the library
  returns NaN, which the reals do not have; a loader yields no empty batch, and the
  theorems about means of batches assume a batch with an example.)
\<close>

definition tensor_mean :: "real list \<Rightarrow> real" where
  "tensor_mean xs = sum_list xs / real (length xs)"

text \<open>\<^verbatim>\<open>torch.mean(equals.type(torch.FloatTensor))\<close>\<close>

definition batch_accuracy ::
  "('p, 'g, 'o, 'r, 'x) framework \<Rightarrow> real list list \<Rightarrow> nat list \<Rightarrow> error + real" where
  "batch_accuracy fw log_ps labels =
     (case batch_equals fw log_ps labels of
        Inl err \<Rightarrow> Inl err
      | Inr equals \<Rightarrow> Inr (tensor_mean (map of_bool equals)))"

section \<open>The training step\<close>

definition optimizer_zero_grad ::
  "('p, 'g::monoid_add, 'o, 'r) session \<Rightarrow> ('p, 'g, 'o, 'r) session" where
  "optimizer_zero_grad s = s\<lparr>grads := 0, trace := trace s @ [ZeroGrad]\<rparr>"

definition model_call ::
  "('p, 'g, 'o, 'r, 'x) framework \<Rightarrow> bool \<Rightarrow> ('p, 'g, 'o, 'r) session \<Rightarrow> 'x \<Rightarrow>
   real list list \<times> ('p, 'g, 'o, 'r) session" where
  "model_call fw tracked s images =
     (let (log_ps, r) = forward fw (params s) (training s) (rng s) images
      in (log_ps, s\<lparr>rng := r, trace := trace s @ [Forward (training s) tracked]\<rparr>))"

definition loss_backward ::
  "'g \<Rightarrow> ('p, 'g::monoid_add, 'o, 'r) session \<Rightarrow> ('p, 'g, 'o, 'r) session" where
  "loss_backward g s = s\<lparr>grads := grads s + g, trace := trace s @ [Backward]\<rparr>"

definition optimizer_step ::
  "('p, 'g, 'o, 'r, 'x) framework \<Rightarrow> ('p, 'g, 'o, 'r) session \<Rightarrow> ('p, 'g, 'o, 'r) session" where
  "optimizer_step fw s =
     (let (p, st) = update fw (opt_state s) (params s) (grads s)
      in s\<lparr>params := p, opt_state := st, trace := trace s @ [OptimizerStep]\<rparr>)"

text \<open>
  \<^verbatim>\<open>optimizer.zero_grad()
  log_ps = model(images)
  loss = criterion(log_ps, labels)
  loss.backward()
  optimizer.step()\<close>
  The step returns the new session and \<open>loss.item()\<close>. The gradient that the backward
  pass adds belongs to the forward pass of this step: it is taken from the parameters,
  mode and generator that the forward pass saw.
\<close>

definition training_step ::
  "('p, 'g::monoid_add, 'o, 'r, 'x) framework \<Rightarrow> ('p, 'g, 'o, 'r) session \<Rightarrow> 'x batch \<Rightarrow>
   ('p, 'g, 'o, 'r) session \<times> real" where
  "training_step fw s b =
     (let s1 = optimizer_zero_grad s;
          g = gradient fw (params s1) (training s1) (rng s1) (fst b) (snd b);
          (log_ps, s2) = model_call fw True s1 (fst b);
          loss = criterion fw log_ps (snd b);
          s3 = loss_backward g s2;
          s4 = optimizer_step fw s3
      in (s4, loss))"

text \<open>
  \<^verbatim>\<open>for images, labels in trainloader:
      ...
      running_loss += loss.item()\<close>
\<close>

fun training_pass ::
  "('p, 'g::monoid_add, 'o, 'r, 'x) framework \<Rightarrow> ('p, 'g, 'o, 'r) session \<Rightarrow> 'x batch list \<Rightarrow>
   real \<Rightarrow> ('p, 'g, 'o, 'r) session \<times> real" where
  "training_pass fw s [] running_loss = (s, running_loss)"
| "training_pass fw s (b # bs) running_loss =
     (let (s', loss) = training_step fw s b
      in training_pass fw s' bs (running_loss + loss))"

section \<open>The validation pass\<close>

text \<open>
  One turn of the loop under \<open>with torch.no_grad()\<close>: the loss and the accuracy of
  the batch, or the error raised, and the session as the turn leaves it.
\<close>

definition validation_step ::
  "('p, 'g, 'o, 'r, 'x) framework \<Rightarrow> ('p, 'g, 'o, 'r) session \<Rightarrow> 'x batch \<Rightarrow>
   (error + real \<times> real) \<times> ('p, 'g, 'o, 'r) session" where
  "validation_step fw s b =
     (let (log_ps, s1) = model_call fw False s (fst b);
          loss = criterion fw log_ps (snd b)
      in case batch_accuracy fw log_ps (snd b) of
           Inl err \<Rightarrow> (Inl err, s1)
         | Inr a \<Rightarrow> (Inr (loss, a), s1))"

text \<open>
  \<^verbatim>\<open>for images, labels in testloader:
      log_ps = model(images)
      test_loss += criterion(log_ps, labels)
      ...
      accuracy += torch.mean(equals.type(torch.FloatTensor))\<close>
\<close>

fun validation_pass ::
  "('p, 'g, 'o, 'r, 'x) framework \<Rightarrow> ('p, 'g, 'o, 'r) session \<Rightarrow> 'x batch list \<Rightarrow>
   real \<times> real \<Rightarrow> (error + real \<times> real) \<times> ('p, 'g, 'o, 'r) session" where
  "validation_pass fw s [] acc = (Inr acc, s)"
| "validation_pass fw s (b # bs) acc =
     (case validation_step fw s b of
        (Inl err, s1) \<Rightarrow> (Inl err, s1)
      | (Inr (loss, a), s1) \<Rightarrow> validation_pass fw s1 bs (fst acc + loss, snd acc + a))"

section \<open>An epoch and a run of Part 5\<close>

text \<open>
  The body of \<open>for e in range(epochs)\<close> in the two training cells of Part 5 (they
  hold the same loop; the second trains the classifier with dropout). \<open>None\<close> is a
  body that ran to its end.
\<close>

definition epoch_body ::
  "('p, 'g::monoid_add, 'o, 'r, 'x) framework \<Rightarrow> 'x batch list \<Rightarrow> 'x batch list \<Rightarrow> nat \<Rightarrow> nat \<Rightarrow>
   ('p, 'g, 'o, 'r) session \<Rightarrow> error option \<times> ('p, 'g, 'o, 'r) session" where
  "epoch_body fw trainloader testloader epochs e s =
     (let (s1, running_loss) = training_pass fw s trainloader 0 in
      case validation_pass fw s1 testloader (0, 0) of
        (Inl err, s2) \<Rightarrow> (Some err, s2)
      | (Inr (test_loss, accuracy), s2) \<Rightarrow>
          (case py_div running_loss (length trainloader) of
             Inl err \<Rightarrow> (Some err, s2)
           | Inr mean_train \<Rightarrow>
               let s3 = s2\<lparr>train_losses := train_losses s2 @ [mean_train]\<rparr> in
               (case py_div test_loss (length testloader) of
                  Inl err \<Rightarrow> (Some err, s3)
                | Inr mean_test \<Rightarrow>
                    let s4 = s3\<lparr>test_losses := test_losses s3 @ [mean_test]\<rparr> in
                    (case py_div accuracy (length testloader) of
                       Inl err \<Rightarrow> (Some err, s4)
                     | Inr mean_accuracy \<Rightarrow>
                         (None, s4\<lparr>stdout := stdout s4 @
                            [report_line e epochs mean_train mean_test mean_accuracy]\<rparr>)))))"

text \<open>\<open>for e in range(epochs)\<close>, stopping at the first error.\<close>

fun for_range ::
  "(nat \<Rightarrow> 's \<Rightarrow> error option \<times> 's) \<Rightarrow> nat list \<Rightarrow> 's \<Rightarrow> error option \<times> 's" where
  "for_range body [] s = (None, s)"
| "for_range body (e # es) s =
     (case body e s of
        (Some err, s') \<Rightarrow> (Some err, s')
      | (None, s') \<Rightarrow> for_range body es s')"

text \<open>
  A training cell of Part 5. \<open>model = Classifier()\<close> and \<open>optimizer = optim.Adam(...)\<close>
  give fresh parameters \<open>p0\<close> in training mode, no gradients and a fresh optimizer
  state \<open>o0\<close>. The loaders shuffle, so each epoch has its own batches:
  \<open>trainloader e\<close> and \<open>testloader e\<close> are the batches of epoch \<open>e\<close>, and
  \<open>len(loader)\<close> is their number.
\<close>

definition fresh ::
  "'p \<Rightarrow> 'o \<Rightarrow> 'r \<Rightarrow> ('p, 'g::monoid_add, 'o, 'r) session" where
  "fresh p0 o0 r0 =
     \<lparr>params = p0, grads = 0, opt_state = o0, rng = r0, training = Training,
      train_losses = [], test_losses = [], stdout = [], trace = []\<rparr>"

definition train_validate ::
  "('p, 'g::monoid_add, 'o, 'r, 'x) framework \<Rightarrow> (nat \<Rightarrow> 'x batch list) \<Rightarrow> (nat \<Rightarrow> 'x batch list) \<Rightarrow>
   nat \<Rightarrow> ('p, 'g, 'o, 'r) session \<Rightarrow> error option \<times> ('p, 'g, 'o, 'r) session" where
  "train_validate fw trainloader testloader epochs s =
     for_range (\<lambda>e. epoch_body fw (trainloader e) (testloader e) epochs e) [0..<epochs] s"

section \<open>The training loop of Part 3\<close>

text \<open>
  \<^verbatim>\<open>for images, labels in trainloader:
      images = images.view(images.shape[0], -1)
      optimizer.zero_grad()
      output = model(images)
      loss = criterion(output, labels)
      loss.backward()
      optimizer.step()
      running_loss += loss.item()\<close>
\<close>

fun training_pass_flat ::
  "('p, 'g::monoid_add, 'o, 'r, 'x) framework \<Rightarrow> ('p, 'g, 'o, 'r) session \<Rightarrow> 'x batch list \<Rightarrow>
   real \<Rightarrow> ('p, 'g, 'o, 'r) session \<times> real" where
  "training_pass_flat fw s [] running_loss = (s, running_loss)"
| "training_pass_flat fw s (b # bs) running_loss =
     (let images = view fw (fst b);
          (s', loss) = training_step fw s (images, snd b)
      in training_pass_flat fw s' bs (running_loss + loss))"



section \<open>What a pass computes, batch by batch\<close>

text \<open>The losses of the steps of a training pass, in order.\<close>

fun training_batch_losses ::
  "('p, 'g::monoid_add, 'o, 'r, 'x) framework \<Rightarrow> ('p, 'g, 'o, 'r) session \<Rightarrow> 'x batch list \<Rightarrow>
   real list" where
  "training_batch_losses fw s [] = []"
| "training_batch_losses fw s (b # bs) =
     (let (s', loss) = training_step fw s b in loss # training_batch_losses fw s' bs)"

text \<open>The predictions that a validation pass makes, one tensor per batch.\<close>

fun validation_log_ps ::
  "('p, 'g, 'o, 'r, 'x) framework \<Rightarrow> ('p, 'g, 'o, 'r) session \<Rightarrow> 'x batch list \<Rightarrow>
   real list list list" where
  "validation_log_ps fw s [] = []"
| "validation_log_ps fw s (b # bs) =
     (let (log_ps, s1) = model_call fw False s (fst b) in log_ps # validation_log_ps fw s1 bs)"

definition validation_batch_losses ::
  "('p, 'g, 'o, 'r, 'x) framework \<Rightarrow> ('p, 'g, 'o, 'r) session \<Rightarrow> 'x batch list \<Rightarrow> real list" where
  "validation_batch_losses fw s bs =
     map2 (\<lambda>log_ps b. criterion fw log_ps (snd b)) (validation_log_ps fw s bs) bs"

definition validation_batch_accuracies ::
  "('p, 'g, 'o, 'r, 'x) framework \<Rightarrow> ('p, 'g, 'o, 'r) session \<Rightarrow> 'x batch list \<Rightarrow>
   (error + real) list" where
  "validation_batch_accuracies fw s bs =
     map2 (\<lambda>log_ps b. batch_accuracy fw log_ps (snd b)) (validation_log_ps fw s bs) bs"

definition validation_batch_equals ::
  "('p, 'g, 'o, 'r, 'x) framework \<Rightarrow> ('p, 'g, 'o, 'r) session \<Rightarrow> 'x batch list \<Rightarrow>
   (error + bool list) list" where
  "validation_batch_equals fw s bs =
     map2 (\<lambda>log_ps b. batch_equals fw log_ps (snd b)) (validation_log_ps fw s bs) bs"

section \<open>A small classifier to run the loops on\<close>

text \<open>The first position of the largest entry of a row.\<close>

definition first_max :: "real list \<Rightarrow> nat" where
  "first_max row = length (takeWhile (\<lambda>v. v < Max (set row)) row)"

text \<open>
  One weight, two classes: an example is an integer \<open>v\<close>, its scores are \<open>[p * v, 0]\<close>.
  The loss is the negative mean of the score of the true class. In training mode every
  forward pass draws once from the generator. The optimizer subtracts the gradient and
  counts its steps. The exponential is the exact one and \<open>topk\<close> picks the first of the
  largest entries.
\<close>

definition demo :: "(int, int, nat, nat, int list) framework" where
  "demo =
     \<lparr>forward = (\<lambda>p m r x. (map (\<lambda>v. [of_int (p * v), 0]) x, if m = Training then Suc r else r)),
      criterion = (\<lambda>log_ps labels.
         - sum_list (map2 (\<lambda>row y. row ! y) log_ps labels) / real (length labels)),
      gradient = (\<lambda>p m r x y. sum_list x),
      update = (\<lambda>st p g. (p - g, Suc st)),
      view = (\<lambda>x. x),
      torch_exp = exp,
      topk = first_max\<rparr>"

section \<open>Notions of the specification\<close>

text \<open>
  The accuracy over a whole held-out set, from the \<open>equals\<close> tensors of its batches:
  the number of correct predictions divided by the number of examples.
\<close>

definition overall_accuracy :: "bool list list \<Rightarrow> real" where
  "overall_accuracy eqs =
     real (length (filter id (concat eqs))) / real (length (concat eqs))"







section \<open>Facts about the parts\<close>

subsection \<open>The largest entry\<close>

lemma Max_exp: "row \<noteq> [] \<Longrightarrow> Max (set (map exp row)) = exp (Max (set (row::real list)))"
proof -
  assume "row \<noteq> []"
  then have "exp (Max (set row)) = Max (exp ` set row)"
    by (intro mono_Max_commute) (auto simp: mono_def)
  then show ?thesis by simp
qed

lemma takeWhile_exp:
  "takeWhile (\<lambda>v. v < exp m) (map exp row) = map exp (takeWhile (\<lambda>v. v < (m::real)) row)"
  by (induction row) auto

lemma first_max_exp: "first_max (map exp row) = first_max row"
proof (cases "row = []")
  case True
  then show ?thesis by (simp add: first_max_def)
next
  case False
  then have "Max (set (map exp row)) = exp (Max (set row))" by (rule Max_exp)
  then show ?thesis by (simp add: first_max_def takeWhile_exp del: set_map)
qed

lemma topk1_rows_exp:
  "torch_exp fw = exp \<Longrightarrow> topk fw = first_max \<Longrightarrow>
   topk1_rows fw (map (map exp) rows) = topk1_rows fw rows"
  by (induction rows) (simp_all add: topk1_def first_max_exp split: sum.splits)

lemma batch_equals_log:
  "torch_exp fw = exp \<Longrightarrow> topk fw = first_max \<Longrightarrow>
   batch_equals fw log_ps labels =
     (case topk1_rows fw log_ps of
        Inl err \<Rightarrow> Inl err
      | Inr tc \<Rightarrow> if length labels = length tc then Inr (map2 (=) tc labels) else Inl RuntimeError)"
  by (simp add: batch_equals_def topk1_rows_exp)





lemma topk1_rows_length: "topk1_rows fw rows = Inr tc \<Longrightarrow> length tc = length rows"
  by (induction rows arbitrary: tc) (auto split: sum.splits)


subsection \<open>The exponential on 32-bit floats\<close>




subsection \<open>The mean of a tensor of zeros and ones\<close>

lemma sum_of_bool: "sum_list (map of_bool bs) = real (length (filter id bs))"
  by (induction bs) auto

lemma mean_of_bool_bounds:
  assumes "bs \<noteq> []"
  shows "0 \<le> tensor_mean (map of_bool bs)" and "tensor_mean (map of_bool bs) \<le> 1"
proof -
  have "length (filter id bs) \<le> length bs" by simp
  then show "0 \<le> tensor_mean (map of_bool bs)" and "tensor_mean (map of_bool bs) \<le> 1"
    using assms by (simp_all add: tensor_mean_def sum_of_bool divide_le_eq)
qed

lemma mean_of_bool_one:
  assumes "bs \<noteq> []"
  shows "tensor_mean (map of_bool bs) = 1 \<longleftrightarrow> (\<forall>i<length bs. bs ! i)"
proof -
  have "length (filter id bs) = length bs \<longleftrightarrow> (\<forall>b\<in>set bs. b)"
    by (metis filter_True id_apply length_filter_less nat_neq_iff)
  also have "\<dots> \<longleftrightarrow> (\<forall>i<length bs. bs ! i)" by (simp add: all_set_conv_all_nth)
  finally show ?thesis using assms by (auto simp: tensor_mean_def sum_of_bool)
qed

lemma mean_of_bool_zero:
  assumes "bs \<noteq> []"
  shows "tensor_mean (map of_bool bs) = 0 \<longleftrightarrow> (\<forall>i<length bs. \<not> bs ! i)"
proof -
  have "length (filter id bs) = 0 \<longleftrightarrow> (\<forall>b\<in>set bs. \<not> b)"
    by (simp add: filter_empty_conv)
  also have "\<dots> \<longleftrightarrow> (\<forall>i<length bs. \<not> bs ! i)" by (simp add: all_set_conv_all_nth)
  finally show ?thesis using assms by (simp add: tensor_mean_def sum_of_bool)
qed

subsection \<open>What the steps leave alone\<close>

lemmas step_defs =
  training_step_def optimizer_zero_grad_def model_call_def loss_backward_def optimizer_step_def

lemma training_step_frame:
  "stdout (fst (training_step fw s b)) = stdout s"
  "train_losses (fst (training_step fw s b)) = train_losses s"
  "test_losses (fst (training_step fw s b)) = test_losses s"
  "training (fst (training_step fw s b)) = training s"
  by (simp_all add: step_defs Let_def split: prod.splits)

lemma training_pass_frame:
  "stdout (fst (training_pass fw s bs r)) = stdout s \<and>
   train_losses (fst (training_pass fw s bs r)) = train_losses s \<and>
   test_losses (fst (training_pass fw s bs r)) = test_losses s \<and>
   training (fst (training_pass fw s bs r)) = training s"
proof (induction bs arbitrary: s r)
  case Nil
  then show ?case by simp
next
  case (Cons b bs)
  obtain s1 l where st: "training_step fw s b = (s1, l)" by (cases "training_step fw s b")
  have "fst (training_step fw s b) = s1" using st by simp
  with training_step_frame [of fw s b]
  have "stdout s1 = stdout s" "train_losses s1 = train_losses s"
    "test_losses s1 = test_losses s" "training s1 = training s" by simp_all
  with Cons.IH [of s1 "r + l"] st show ?case by simp
qed


lemma model_call_frame:
  "params (snd (model_call fw t s x)) = params s"
  "grads (snd (model_call fw t s x)) = grads s"
  "opt_state (snd (model_call fw t s x)) = opt_state s"
  "training (snd (model_call fw t s x)) = training s"
  "stdout (snd (model_call fw t s x)) = stdout s"
  "train_losses (snd (model_call fw t s x)) = train_losses s"
  "test_losses (snd (model_call fw t s x)) = test_losses s"
  "trace (snd (model_call fw t s x)) = trace s @ [Forward (training s) t]"
  by (simp_all add: model_call_def split: prod.splits)

lemma validation_step_unfold:
  "validation_step fw s b =
     (case batch_accuracy fw (fst (model_call fw False s (fst b))) (snd b) of
        Inl err \<Rightarrow> Inl err
      | Inr a \<Rightarrow> Inr (criterion fw (fst (model_call fw False s (fst b))) (snd b), a),
      snd (model_call fw False s (fst b)))"
  by (simp add: validation_step_def Let_def split: prod.splits sum.splits)

lemma validation_step_state:
  "snd (validation_step fw s b) = snd (model_call fw False s (fst b))"
  by (simp add: validation_step_unfold)

lemma validation_pass_frame:
  "params (snd (validation_pass fw s bs acc)) = params s \<and>
   grads (snd (validation_pass fw s bs acc)) = grads s \<and>
   opt_state (snd (validation_pass fw s bs acc)) = opt_state s \<and>
   training (snd (validation_pass fw s bs acc)) = training s \<and>
   stdout (snd (validation_pass fw s bs acc)) = stdout s \<and>
   train_losses (snd (validation_pass fw s bs acc)) = train_losses s \<and>
   test_losses (snd (validation_pass fw s bs acc)) = test_losses s"
proof (induction bs arbitrary: s acc)
  case Nil
  then show ?case by simp
next
  case (Cons b bs)
  let ?s1 = "snd (model_call fw False s (fst b))"
  note fr = model_call_frame [of fw False s "fst b"]
  show ?case
  proof (cases "fst (validation_step fw s b)")
    case (Inl err)
    then have "validation_pass fw s (b # bs) acc = (Inl err, ?s1)"
      by (cases "validation_step fw s b") (simp add: validation_step_state [symmetric])
    then show ?thesis using fr by simp
  next
    case (Inr la)
    then have "validation_pass fw s (b # bs) acc =
        validation_pass fw ?s1 bs (fst acc + fst la, snd acc + snd la)"
      by (cases "validation_step fw s b"; cases la) (simp add: validation_step_state [symmetric])
    then show ?thesis using fr Cons.IH [of ?s1 "(fst acc + fst la, snd acc + snd la)"] by simp
  qed
qed

lemma validation_pass_trace:
  "\<exists>n. n \<le> length bs \<and>
     trace (snd (validation_pass fw s bs acc)) = trace s @ replicate n (Forward (training s) False)"
proof (induction bs arbitrary: s acc)
  case Nil
  then show ?case by simp
next
  case (Cons b bs)
  let ?s1 = "snd (model_call fw False s (fst b))"
  note fr = model_call_frame [of fw False s "fst b"]
  show ?case
  proof (cases "fst (validation_step fw s b)")
    case (Inl err)
    then have "validation_pass fw s (b # bs) acc = (Inl err, ?s1)"
      by (cases "validation_step fw s b") (simp add: validation_step_state [symmetric])
    then have "trace (snd (validation_pass fw s (b # bs) acc)) =
        trace s @ replicate 1 (Forward (training s) False)" using fr by simp
    then show ?thesis by (intro exI [of _ 1]) simp
  next
    case (Inr la)
    then have eq: "validation_pass fw s (b # bs) acc =
        validation_pass fw ?s1 bs (fst acc + fst la, snd acc + snd la)"
      by (cases "validation_step fw s b"; cases la) (simp add: validation_step_state [symmetric])
    from Cons.IH [of ?s1 "(fst acc + fst la, snd acc + snd la)"]
    obtain n where n: "n \<le> length bs"
      "trace (snd (validation_pass fw ?s1 bs (fst acc + fst la, snd acc + snd la))) =
         trace ?s1 @ replicate n (Forward (training ?s1) False)" by blast
    then have "trace (snd (validation_pass fw s (b # bs) acc)) =
        trace s @ replicate (Suc n) (Forward (training s) False)"
      using eq fr by (simp add: replicate_app_Cons_same)
    then show ?thesis using n(1) by (intro exI [of _ "Suc n"]) simp
  qed
qed

subsection \<open>The running totals\<close>

lemma training_pass_sum:
  "snd (training_pass fw s bs r) = r + sum_list (training_batch_losses fw s bs)"
  by (induction bs arbitrary: s r) (simp_all add: split: prod.splits)

lemma validation_lists_Cons:
  "validation_batch_losses fw s (b # bs) =
     criterion fw (fst (model_call fw False s (fst b))) (snd b) #
     validation_batch_losses fw (snd (model_call fw False s (fst b))) bs"
  "validation_batch_accuracies fw s (b # bs) =
     batch_accuracy fw (fst (model_call fw False s (fst b))) (snd b) #
     validation_batch_accuracies fw (snd (model_call fw False s (fst b))) bs"
  "validation_batch_equals fw s (b # bs) =
     batch_equals fw (fst (model_call fw False s (fst b))) (snd b) #
     validation_batch_equals fw (snd (model_call fw False s (fst b))) bs"
  by (simp_all add: validation_batch_losses_def validation_batch_accuracies_def
      validation_batch_equals_def split: prod.splits)

lemma validation_pass_sums:
  "validation_pass fw s bs acc = (Inr res, s') \<Longrightarrow>
   \<exists>eqs. validation_batch_equals fw s bs = map Inr eqs \<and>
     validation_batch_accuracies fw s bs = map (\<lambda>e. Inr (tensor_mean (map of_bool e))) eqs \<and>
     fst res = fst acc + sum_list (validation_batch_losses fw s bs) \<and>
     snd res = snd acc + sum_list (map (\<lambda>e. tensor_mean (map of_bool e)) eqs)"
proof (induction bs arbitrary: s acc)
  case Nil
  then show ?case
    by (auto simp: validation_batch_losses_def validation_batch_accuracies_def
        validation_batch_equals_def)
next
  case (Cons b bs)
  let ?lp = "fst (model_call fw False s (fst b))"
  let ?s1 = "snd (model_call fw False s (fst b))"
  from Cons.prems obtain a where a: "batch_accuracy fw ?lp (snd b) = Inr a"
    by (auto simp: validation_step_unfold split: sum.splits)
  then obtain e where e: "batch_equals fw ?lp (snd b) = Inr e" "a = tensor_mean (map of_bool e)"
    by (auto simp: batch_accuracy_def split: sum.splits)
  let ?acc = "(fst acc + criterion fw ?lp (snd b), snd acc + a)"
  from Cons.prems a have "validation_pass fw ?s1 bs ?acc = (Inr res, s')"
    by (simp add: validation_step_unfold)
  from Cons.IH [OF this] obtain eqs where
    "validation_batch_equals fw ?s1 bs = map Inr eqs"
    "validation_batch_accuracies fw ?s1 bs = map (\<lambda>e. Inr (tensor_mean (map of_bool e))) eqs"
    "fst res = fst ?acc + sum_list (validation_batch_losses fw ?s1 bs)"
    "snd res = snd ?acc + sum_list (map (\<lambda>e. tensor_mean (map of_bool e)) eqs)" by blast
  then show ?case using a e
    by (intro exI [of _ "e # eqs"]) (simp add: validation_lists_Cons)
qed

lemma validation_lists_length:
  "length (validation_batch_losses fw s bs) = length bs"
  "length (validation_batch_accuracies fw s bs) = length bs"
  "length (validation_batch_equals fw s bs) = length bs"
proof -
  have "length (validation_log_ps fw s bs) = length bs"
    by (induction bs arbitrary: s) (simp_all split: prod.splits)
  then show "length (validation_batch_losses fw s bs) = length bs"
    "length (validation_batch_accuracies fw s bs) = length bs"
    "length (validation_batch_equals fw s bs) = length bs"
    by (simp_all add: validation_batch_losses_def validation_batch_accuracies_def
        validation_batch_equals_def)
qed

lemma training_batch_losses_length: "length (training_batch_losses fw s bs) = length bs"
  by (induction bs arbitrary: s) (simp_all split: prod.splits)

subsection \<open>An epoch that runs to its end\<close>

lemma epoch_body_None:
  assumes "epoch_body fw trl tel E e s = (None, s')"
  shows "\<exists>tl ac s2.
     validation_pass fw (fst (training_pass fw s trl 0)) tel (0, 0) = (Inr (tl, ac), s2) \<and>
     trl \<noteq> [] \<and> tel \<noteq> [] \<and>
     s' = s2\<lparr>train_losses := train_losses s2 @ [snd (training_pass fw s trl 0) / real (length trl)],
             test_losses := test_losses s2 @ [tl / real (length tel)],
             stdout := stdout s2 @
               [report_line e E (snd (training_pass fw s trl 0) / real (length trl))
                  (tl / real (length tel)) (ac / real (length tel))]\<rparr>"
  using assms
  by (auto simp: epoch_body_def py_div_def Let_def split: prod.splits sum.splits if_splits)

lemma epoch_body_Some:
  assumes "epoch_body fw trl tel E e s = (Some err, s')"
  shows "stdout s' = stdout s"
proof -
  let ?s1 = "fst (training_pass fw s trl 0)"
  have 1: "stdout ?s1 = stdout s" using training_pass_frame [of fw s trl 0] by simp
  have 2: "stdout (snd (validation_pass fw ?s1 tel (0, 0))) = stdout ?s1"
    using validation_pass_frame [of fw ?s1 tel "(0, 0)"] by simp
  from assms have "stdout s' = stdout (snd (validation_pass fw ?s1 tel (0, 0)))"
    by (auto simp: epoch_body_def py_div_def Let_def split: prod.splits sum.splits if_splits)
  with 1 2 show ?thesis by simp
qed

section \<open>The predicted class\<close>




section \<open>The accuracy of a batch is a fraction\<close>

text \<open>
  C3. For a batch with at least one example, the accuracy that the loop computes
  (the mean of \<open>equals\<close>) lies between 0 and 1; it is 1 exactly when the predicted class
  of every example is its label, and 0 exactly when the predicted class of no example is
  its label.
\<close>

theorem batch_accuracy_range:
  assumes "batch_accuracy fw log_ps labels = Inr a" and "labels \<noteq> []"
  shows "\<exists>tc. topk1_rows fw (map (map (torch_exp fw)) log_ps) = Inr tc \<and>
     length tc = length labels \<and>
     0 \<le> a \<and> a \<le> 1 \<and>
     (a = 1 \<longleftrightarrow> (\<forall>i<length labels. tc ! i = labels ! i)) \<and>
     (a = 0 \<longleftrightarrow> (\<forall>i<length labels. tc ! i \<noteq> labels ! i))"
proof -
  from assms(1) obtain tc where tc: "topk1_rows fw (map (map (torch_exp fw)) log_ps) = Inr tc"
    and len: "length labels = length tc"
    and a: "a = tensor_mean (map of_bool (map2 (=) tc labels))"
    by (auto simp: batch_accuracy_def batch_equals_def split: sum.splits if_splits)
  let ?eq = "map2 (=) tc labels"
  have ne: "?eq \<noteq> []" using assms(2) len by (cases tc; cases labels) simp_all
  have n: "length ?eq = length labels" using len by simp
  have nth: "\<And>i. i < length labels \<Longrightarrow> ?eq ! i = (tc ! i = labels ! i)"
    using len by simp
  have "0 \<le> a" and "a \<le> 1" unfolding a using mean_of_bool_bounds [OF ne] by simp_all
  moreover have "a = 1 \<longleftrightarrow> (\<forall>i<length labels. tc ! i = labels ! i)"
    unfolding a mean_of_bool_one [OF ne] n using nth by auto
  moreover have "a = 0 \<longleftrightarrow> (\<forall>i<length labels. tc ! i \<noteq> labels ! i)"
    unfolding a mean_of_bool_zero [OF ne] n using nth by auto
  ultimately show ?thesis using tc len by auto
qed

theorem batch_accuracy_range_witness:
  "batch_accuracy demo [[0, - 1], [- 2, - 1], [- 3, - 3]] [0, 0, 0] = Inr (2 / 3) \<and>
   [0, 0, 0 :: nat] \<noteq> [] \<and>
   (\<exists>tc. topk1_rows demo (map (map (torch_exp demo)) [[0, - 1], [- 2, - 1], [- 3, - 3]]) =
        Inr tc \<and>
      length tc = length [0, 0, 0 :: nat] \<and> (0::real) \<le> 2 / 3 \<and> (2 / 3 :: real) \<le> 1 \<and>
      ((2 / 3 :: real) = 1 \<longleftrightarrow> (\<forall>i<length [0, 0, 0 :: nat]. tc ! i = [0, 0, 0] ! i)) \<and>
      ((2 / 3 :: real) = 0 \<longleftrightarrow> (\<forall>i<length [0, 0, 0 :: nat]. tc ! i \<noteq> [0, 0, 0] ! i)))"
proof -
  have h: "batch_accuracy demo [[0, - 1], [- 2, - 1], [- 3, - 3]] [0, 0, 0] = Inr (2 / 3)"
    by (simp add: batch_accuracy_def batch_equals_log topk1_def first_max_def tensor_mean_def
        demo_def)
  have n: "[0, 0, 0 :: nat] \<noteq> []" by simp
  from batch_accuracy_range [OF h n] h n show ?thesis by blast
qed

section \<open>Gradients do not pile up across batches\<close>

lemma training_step_forgets_grads: "training_step fw (s\<lparr>grads := g\<rparr>) b = training_step fw s b"
  by (simp add: step_defs)

lemma training_pass_forgets_grads:
  "bs \<noteq> [] \<Longrightarrow> training_pass fw (s\<lparr>grads := g\<rparr>) bs r = training_pass fw s bs r"
  by (cases bs) (simp_all add: training_step_forgets_grads)

lemma training_pass_flat_forgets_grads:
  "bs \<noteq> [] \<Longrightarrow> training_pass_flat fw (s\<lparr>grads := g\<rparr>) bs r = training_pass_flat fw s bs r"
  by (cases bs) (simp_all add: training_step_forgets_grads)

text \<open>
  C5. A training step first clears the gradient accumulators, then runs the forward
  pass, the backward pass and the optimizer step, in this order. So, whatever the
  accumulators held before the step, after the backward pass they hold the gradient of
  this batch's loss alone, the optimizer updates the parameters from that gradient alone,
  and a training pass over at least one batch (in Part 5 as in Part 3) does not depend
  on what the accumulators held when it began.
\<close>

theorem gradients_cleared_each_step:
  "grads (fst (training_step fw s b)) =
     gradient fw (params s) (training s) (rng s) (fst b) (snd b) \<and>
   params (fst (training_step fw s b)) =
     fst (update fw (opt_state s) (params s)
       (gradient fw (params s) (training s) (rng s) (fst b) (snd b))) \<and>
   trace (fst (training_step fw s b)) =
     trace s @ [ZeroGrad, Forward (training s) True, Backward, OptimizerStep] \<and>
   training_step fw (s\<lparr>grads := g\<rparr>) b = training_step fw s b \<and>
   (bs \<noteq> [] \<longrightarrow>
      training_pass fw (s\<lparr>grads := g\<rparr>) bs r = training_pass fw s bs r \<and>
      training_pass_flat fw (s\<lparr>grads := g\<rparr>) bs r = training_pass_flat fw s bs r)"
proof -
  have "grads (fst (training_step fw s b)) =
      gradient fw (params s) (training s) (rng s) (fst b) (snd b)"
    by (simp add: step_defs Let_def split: prod.splits)
  moreover have "params (fst (training_step fw s b)) =
      fst (update fw (opt_state s) (params s)
        (gradient fw (params s) (training s) (rng s) (fst b) (snd b)))"
    by (simp add: step_defs Let_def split: prod.splits)
  moreover have "trace (fst (training_step fw s b)) =
      trace s @ [ZeroGrad, Forward (training s) True, Backward, OptimizerStep]"
    by (simp add: step_defs Let_def split: prod.splits)
  ultimately show ?thesis
    using training_step_forgets_grads [of fw g s b]
      training_pass_forgets_grads [of bs fw g s r]
      training_pass_flat_forgets_grads [of bs fw g s r]
    by blast
qed

theorem gradients_cleared_each_step_witness:
  "grads (fst (training_step demo (fresh 1 0 0) ([1, 2], [0, 1]))) = 3 \<and>
   params (fst (training_step demo (fresh 1 0 0) ([1, 2], [0, 1]))) = - 2 \<and>
   [([1, 2], [0, 1 :: nat])] \<noteq> ([] :: int list batch list) \<and>
   training_pass demo ((fresh 1 0 0)\<lparr>grads := 5\<rparr>) [([1, 2], [0, 1])] 0 =
     training_pass demo (fresh 1 0 0) [([1, 2], [0, 1])] 0 \<and>
   training_pass_flat demo ((fresh 1 0 0)\<lparr>grads := 5\<rparr>) [([1, 2], [0, 1])] 0 =
     training_pass_flat demo (fresh 1 0 0) [([1, 2], [0, 1])] 0"
proof -
  have g: "gradient demo (params (fresh 1 0 0 :: (int, int, nat, nat) session))
      (training (fresh 1 0 0 :: (int, int, nat, nat) session))
      (rng (fresh 1 0 0 :: (int, int, nat, nat) session)) (fst ([1, 2], [0, 1 :: nat]))
      (snd ([1, 2 :: int], [0, 1])) = 3"
    by (simp add: demo_def)
  have u: "fst (update demo (opt_state (fresh 1 0 0 :: (int, int, nat, nat) session))
      (params (fresh 1 0 0 :: (int, int, nat, nat) session)) 3) = - 2"
    by (simp add: demo_def fresh_def)
  have n: "[([1, 2], [0, 1 :: nat])] \<noteq> ([] :: int list batch list)" by simp
  show ?thesis
    using gradients_cleared_each_step
      [of demo "fresh 1 0 0" "([1, 2], [0, 1])" 5 "[([1, 2], [0, 1])]" 0] g u n
    by simp
qed

section \<open>Validation changes no parameter\<close>

text \<open>
  C6. The validation pass makes forward passes only, all of them without gradient
  tracking: it changes neither the parameters, nor the gradient accumulators, nor the
  optimizer's state. So, whether the epoch runs to its end or is stopped by an error, the
  parameters after its validation pass are the parameters that the last optimizer step of
  its training pass left.
\<close>

theorem validation_keeps_parameters:
  "params (snd (validation_pass fw s bs acc)) = params s \<and>
   grads (snd (validation_pass fw s bs acc)) = grads s \<and>
   opt_state (snd (validation_pass fw s bs acc)) = opt_state s \<and>
   (\<exists>n. n \<le> length bs \<and>
      trace (snd (validation_pass fw s bs acc)) =
        trace s @ replicate n (Forward (training s) False)) \<and>
   params (snd (epoch_body fw trl tel E e s)) = params (fst (training_pass fw s trl 0))"
proof -
  let ?s1 = "fst (training_pass fw s trl 0)"
  have "params (snd (epoch_body fw trl tel E e s)) =
      params (snd (validation_pass fw ?s1 tel (0, 0)))"
    by (auto simp: epoch_body_def py_div_def Let_def split: prod.splits sum.splits)
  then show ?thesis
    using validation_pass_frame [of fw s bs acc] validation_pass_frame [of fw ?s1 tel "(0, 0)"]
      validation_pass_trace [of bs fw s acc]
    by simp
qed

theorem validation_keeps_parameters_witness:
  "params (snd (validation_pass demo (fresh 1 0 0) [([1, - 1], [0, 0]), ([- 2], [1])] (0, 0))) = 1 \<and>
   grads (snd (validation_pass demo (fresh 1 0 0) [([1, - 1], [0, 0]), ([- 2], [1])] (0, 0))) = 0 \<and>
   opt_state (snd (validation_pass demo (fresh 1 0 0) [([1, - 1], [0, 0]), ([- 2], [1])] (0, 0))) = 0"
  using validation_keeps_parameters
    [of demo "fresh 1 0 0" "[([1, - 1], [0, 0]), ([- 2], [1])]" "(0, 0)"]
  by (simp add: fresh_def)

section \<open>The metrics of an epoch\<close>

lemmas run_defs =
  epoch_body_def step_defs validation_step_def batch_accuracy_def batch_equals_log topk1_def
  first_max_def
  tensor_mean_def py_div_def fresh_def demo_def

lemma demo_epoch:
  "epoch_body demo [([1, 2], [1, 1]), ([3], [0])] [([1, - 1], [0, 0]), ([- 2], [1])] 1 0
     (fresh 1 0 0) =
   (None, \<lparr>params = - 5, grads = 3, opt_state = 2, rng = 4, training = Training,
      train_losses = [3], test_losses = [0],
      stdout = [report_line 0 1 3 0 (1 / 4)],
      trace = [ZeroGrad, Forward Training True, Backward, OptimizerStep,
               ZeroGrad, Forward Training True, Backward, OptimizerStep,
               Forward Training False, Forward Training False]\<rparr>)"
  by (simp add: run_defs)

text \<open>
  C2. When the body of an epoch runs to its end, the line it prints and the values it
  appends to the two histories are built from three means: the sum of the losses of the
  training steps over the number of training batches, the sum of the losses of the
  validation batches over the number of validation batches, and the sum of the
  accuracies of the validation batches over the number of validation batches.
\<close>

theorem epoch_reports_means:
  assumes "epoch_body fw trl tel E e s = (None, s')"
  shows "\<exists>accs.
     validation_batch_accuracies fw (fst (training_pass fw s trl 0)) tel = map Inr accs \<and>
     length (training_batch_losses fw s trl) = length trl \<and>
     length (validation_batch_losses fw (fst (training_pass fw s trl 0)) tel) = length tel \<and>
     length accs = length tel \<and> 0 < length trl \<and> 0 < length tel \<and>
     train_losses s' = train_losses s @
       [sum_list (training_batch_losses fw s trl) / real (length trl)] \<and>
     test_losses s' = test_losses s @
       [sum_list (validation_batch_losses fw (fst (training_pass fw s trl 0)) tel) /
        real (length tel)] \<and>
     stdout s' = stdout s @
       [report_line e E
          (sum_list (training_batch_losses fw s trl) / real (length trl))
          (sum_list (validation_batch_losses fw (fst (training_pass fw s trl 0)) tel) /
           real (length tel))
          (sum_list accs / real (length tel))]"
proof -
  let ?s1 = "fst (training_pass fw s trl 0)"
  from epoch_body_None [OF assms] obtain tl ac s2 where
    vp: "validation_pass fw ?s1 tel (0, 0) = (Inr (tl, ac), s2)"
    and ne: "trl \<noteq> []" "tel \<noteq> []"
    and s': "s' = s2\<lparr>train_losses := train_losses s2 @
                [snd (training_pass fw s trl 0) / real (length trl)],
             test_losses := test_losses s2 @ [tl / real (length tel)],
             stdout := stdout s2 @
               [report_line e E (snd (training_pass fw s trl 0) / real (length trl))
                  (tl / real (length tel)) (ac / real (length tel))]\<rparr>"
    by blast
  from validation_pass_sums [OF vp] obtain eqs where
    acs: "validation_batch_accuracies fw ?s1 tel =
        map (\<lambda>e. Inr (tensor_mean (map of_bool e))) eqs"
    and tl: "tl = sum_list (validation_batch_losses fw ?s1 tel)"
    and ac: "ac = sum_list (map (\<lambda>e. tensor_mean (map of_bool e)) eqs)"
    by auto
  let ?accs = "map (\<lambda>e. tensor_mean (map of_bool e)) eqs"
  have rl: "snd (training_pass fw s trl 0) = sum_list (training_batch_losses fw s trl)"
    by (simp add: training_pass_sum)
  have s2: "s2 = snd (validation_pass fw ?s1 tel (0, 0))" using vp by simp
  have fr: "train_losses s2 = train_losses s" "test_losses s2 = test_losses s"
    "stdout s2 = stdout s"
    unfolding s2 using validation_pass_frame [of fw ?s1 tel "(0, 0)"]
      training_pass_frame [of fw s trl 0] by simp_all
  have la: "length ?accs = length tel"
    using acs validation_lists_length(2) [of fw ?s1 tel] by (metis length_map)
  have "validation_batch_accuracies fw ?s1 tel = map Inr ?accs" using acs by simp
  moreover have "train_losses s' = train_losses s @
       [sum_list (training_batch_losses fw s trl) / real (length trl)]"
    using s' fr rl by simp
  moreover have "test_losses s' = test_losses s @
       [sum_list (validation_batch_losses fw ?s1 tel) / real (length tel)]"
    using s' fr tl by simp
  moreover have "stdout s' = stdout s @
       [report_line e E
          (sum_list (training_batch_losses fw s trl) / real (length trl))
          (sum_list (validation_batch_losses fw ?s1 tel) / real (length tel))
          (sum_list ?accs / real (length tel))]"
    using s' fr rl tl ac by simp
  ultimately show ?thesis
    using la ne training_batch_losses_length [of fw s trl] validation_lists_length(1) [of fw ?s1 tel]
    by (intro exI [of _ ?accs]) simp
qed

theorem epoch_reports_means_witness:
  "fst (epoch_body demo [([1, 2], [1, 1]), ([3], [0])] [([1, - 1], [0, 0]), ([- 2], [1])] 1 0
     (fresh 1 0 0)) = None \<and>
   sum_list (training_batch_losses demo (fresh 1 0 0) [([1, 2], [1, 1]), ([3], [0])]) /
     real (length [([1, 2], [1, 1]), ([3 :: int], [0 :: nat])]) = 3 \<and>
   sum_list (validation_batch_losses demo
       (fst (training_pass demo (fresh 1 0 0) [([1, 2], [1, 1]), ([3], [0])] 0))
       [([1, - 1], [0, 0]), ([- 2], [1])]) /
     real (length [([1, - 1], [0, 0]), ([- 2 :: int], [1 :: nat])]) = 0"
proof -
  note h = demo_epoch
  from epoch_reports_means [OF h] show ?thesis using h by auto
qed

section \<open>The mean training loss is not negative\<close>

text \<open>
  C9. When an epoch has at least one training batch and the loss of every training step
  is non-negative, the division of the running loss by the number of batches gives a
  number (it does not raise), that number is the mean of the losses of the steps and it
  is non-negative; an epoch that runs to its end appends it to \<open>train_losses\<close> and
  prints it.
\<close>

theorem mean_training_loss_nonnegative:
  assumes "trl \<noteq> []" and "\<forall>l\<in>set (training_batch_losses fw s trl). 0 \<le> l"
  shows "\<exists>m. py_div (snd (training_pass fw s trl 0)) (length trl) = Inr m \<and> 0 \<le> m \<and>
     m = sum_list (training_batch_losses fw s trl) / real (length trl) \<and>
     (\<forall>s'. epoch_body fw trl tel E e s = (None, s') \<longrightarrow>
        train_losses s' = train_losses s @ [m] \<and>
        (\<exists>a b. stdout s' = stdout s @ [report_line e E m a b]))"
proof -
  let ?m = "sum_list (training_batch_losses fw s trl) / real (length trl)"
  have rl: "snd (training_pass fw s trl 0) = sum_list (training_batch_losses fw s trl)"
    by (simp add: training_pass_sum)
  have "0 \<le> sum_list (training_batch_losses fw s trl)"
    using assms(2) by (intro sum_list_nonneg) simp
  then have nonneg: "0 \<le> ?m" by simp
  have div: "py_div (snd (training_pass fw s trl 0)) (length trl) = Inr ?m"
    using assms(1) rl by (simp add: py_div_def)
  have "train_losses s' = train_losses s @ [?m] \<and>
      (\<exists>a b. stdout s' = stdout s @ [report_line e E ?m a b])"
    if h: "epoch_body fw trl tel E e s = (None, s')" for s'
  proof -
    let ?s1 = "fst (training_pass fw s trl 0)"
    from epoch_body_None [OF h] obtain tl ac s2 where
      vp: "validation_pass fw ?s1 tel (0, 0) = (Inr (tl, ac), s2)"
      and s': "s' = s2\<lparr>train_losses := train_losses s2 @
                  [snd (training_pass fw s trl 0) / real (length trl)],
               test_losses := test_losses s2 @ [tl / real (length tel)],
               stdout := stdout s2 @
                 [report_line e E (snd (training_pass fw s trl 0) / real (length trl))
                    (tl / real (length tel)) (ac / real (length tel))]\<rparr>"
      by blast
    have s2: "s2 = snd (validation_pass fw ?s1 tel (0, 0))" using vp by simp
    have fr: "train_losses s2 = train_losses s" "stdout s2 = stdout s"
      unfolding s2 using validation_pass_frame [of fw ?s1 tel "(0, 0)"]
        training_pass_frame [of fw s trl 0] by simp_all
    show ?thesis using s' fr rl by auto
  qed
  then show ?thesis using div nonneg by blast
qed

theorem mean_training_loss_nonnegative_witness:
  "[([1, 2], [1, 1]), ([3 :: int], [0 :: nat])] \<noteq> [] \<and>
   training_batch_losses demo (fresh 1 0 0) [([1, 2], [1, 1]), ([3], [0])] = [0, 6] \<and>
   py_div (snd (training_pass demo (fresh 1 0 0) [([1, 2], [1, 1]), ([3], [0])] 0))
     (length [([1, 2], [1, 1]), ([3 :: int], [0 :: nat])]) = Inr 3 \<and>
   (0 :: real) \<le> 3"
proof -
  let ?trl = "[([1, 2], [1, 1]), ([3 :: int], [0 :: nat])]"
  have l: "training_batch_losses demo (fresh 1 0 0) ?trl = [0, 6]"
    by (simp add: run_defs)
  have n: "?trl \<noteq> []" by simp
  have p: "\<forall>l\<in>set (training_batch_losses demo (fresh 1 0 0) ?trl). 0 \<le> l"
    unfolding l by simp
  from mean_training_loss_nonnegative [OF n p] show ?thesis using l by auto
qed

section \<open>Averaging the accuracies of the batches\<close>

lemma batch_equals_length:
  "batch_equals fw log_ps labels = Inr e \<Longrightarrow> length e = length labels"
  by (auto simp: batch_equals_def split: sum.splits if_splits)

lemma validation_equals_sizes:
  "validation_batch_equals fw s bs = map Inr eqs \<Longrightarrow> \<forall>b\<in>set bs. length (snd b) = k \<Longrightarrow>
   \<forall>e\<in>set eqs. length e = k"
proof (induction bs arbitrary: s eqs)
  case Nil
  then show ?case by (simp add: validation_batch_equals_def)
next
  case (Cons b bs)
  from Cons.prems(1) obtain e es where eqs: "eqs = e # es"
    and e: "batch_equals fw (fst (model_call fw False s (fst b))) (snd b) = Inr e"
    and es: "validation_batch_equals fw (snd (model_call fw False s (fst b))) bs = map Inr es"
    by (cases eqs) (auto simp: validation_lists_Cons)
  have "length e = k" using batch_equals_length [OF e] Cons.prems(2) by simp
  moreover have "\<forall>e\<in>set es. length e = k" using Cons.IH [OF es] Cons.prems(2) by simp
  ultimately show ?case using eqs by simp
qed

lemma equal_sizes_counts:
  assumes "\<forall>e\<in>set eqs. length e = k"
  shows "length (concat eqs) = length eqs * k"
    and "sum_list (map (\<lambda>e. tensor_mean (map of_bool e)) eqs) =
         real (length (filter id (concat eqs))) / real k"
  using assms by (induction eqs) (simp_all add: tensor_mean_def sum_of_bool add_divide_distrib)

lemma equal_sizes_mean:
  assumes "\<forall>e\<in>set eqs. length e = k"
  shows "sum_list (map (\<lambda>e. tensor_mean (map of_bool e)) eqs) / real (length eqs) =
         overall_accuracy eqs"
  using equal_sizes_counts [OF assms] by (simp add: overall_accuracy_def mult.commute)

text \<open>
  C4. When every batch of the held-out set has the same size \<open>k > 0\<close>, the accuracy that the
  loop reports (the sum of the batch accuracies over the number of batches) is the number
  of correct predictions over the number of examples. With a shorter last batch the two
  can differ: for three examples in batches of two and one, of which the second and the
  third are predicted correctly, the loop reports 3/4 and the overall accuracy is 2/3.
\<close>

theorem mean_of_batch_accuracies:
  "(validation_pass fw s bs (0, 0) = (Inr (test_loss, accuracy), s') \<and> bs \<noteq> [] \<and>
      0 < k \<and> (\<forall>b\<in>set bs. length (snd b) = k) \<longrightarrow>
    (\<exists>eqs. validation_batch_equals fw s bs = map Inr eqs \<and>
       py_div accuracy (length bs) = Inr (overall_accuracy eqs))) \<and>
   (length (snd (last [([1, - 1], [0, 0]), ([- 2 :: int], [0 :: nat])])) <
      length (snd (hd [([1, - 1], [0, 0]), ([- 2 :: int], [0 :: nat])])) \<and>
    fst (validation_pass demo (fresh (- 5) 0 0) [([1, - 1], [0, 0]), ([- 2], [0])] (0, 0)) =
      Inr (- 10, 3 / 2) \<and>
    validation_batch_equals demo (fresh (- 5) 0 0 :: (int, int, nat, nat) session)
      [([1, - 1], [0, 0]), ([- 2], [0])] = map Inr [[False, True], [True]] \<and>
    py_div (3 / 2) (length [([1, - 1], [0, 0]), ([- 2 :: int], [0 :: nat])]) = Inr (3 / 4) \<and>
    overall_accuracy [[False, True], [True]] = 2 / 3)"
proof -
  have "\<exists>eqs. validation_batch_equals fw s bs = map Inr eqs \<and>
      py_div accuracy (length bs) = Inr (overall_accuracy eqs)"
    if vp: "validation_pass fw s bs (0, 0) = (Inr (test_loss, accuracy), s')" and ne: "bs \<noteq> []"
      and sz: "\<forall>b\<in>set bs. length (snd b) = k"
  proof -
    from validation_pass_sums [OF vp] obtain eqs where
      eqs: "validation_batch_equals fw s bs = map Inr eqs"
      and ac: "accuracy = sum_list (map (\<lambda>e. tensor_mean (map of_bool e)) eqs)"
      by auto
    have len: "length eqs = length bs"
      using eqs validation_lists_length(3) [of fw s bs] by (metis length_map)
    have "\<forall>e\<in>set eqs. length e = k" using validation_equals_sizes [OF eqs sz] .
    then have "accuracy / real (length bs) = overall_accuracy eqs"
      using equal_sizes_mean [of eqs k] ac len by simp
    then show ?thesis using eqs ne by (auto simp: py_div_def)
  qed
  moreover have "fst (validation_pass demo (fresh (- 5) 0 0)
      [([1, - 1], [0, 0]), ([- 2], [0])] (0, 0)) = Inr (- 10, 3 / 2)"
    by (simp add: run_defs)
  moreover have "validation_batch_equals demo (fresh (- 5) 0 0 :: (int, int, nat, nat) session)
      [([1, - 1], [0, 0]), ([- 2], [0])] = map Inr [[False, True], [True]]"
    by (simp add: validation_batch_equals_def run_defs)
  moreover have "overall_accuracy [[False, True], [True]] = 2 / 3"
    by (simp add: overall_accuracy_def)
  ultimately show ?thesis by (simp add: py_div_def)
qed

theorem mean_of_batch_accuracies_witness:
  "fst (validation_pass demo (fresh (- 5) 0 0) [([1, - 1], [0, 0]), ([- 2, 3], [0, 1])] (0, 0)) =
     Inr (- 5, 3 / 2) \<and>
   length (snd ([([1, - 1], [0, 0]), ([- 2, 3 :: int], [0, 1 :: nat])] ! 0)) = 2 \<and>
   length (snd ([([1, - 1], [0, 0]), ([- 2, 3 :: int], [0, 1 :: nat])] ! 1)) = 2 \<and>
   (\<exists>eqs. validation_batch_equals demo (fresh (- 5) 0 0 :: (int, int, nat, nat) session)
        [([1, - 1], [0, 0]), ([- 2, 3], [0, 1])] = map Inr eqs \<and>
      py_div (3 / 2) (length [([1, - 1], [0, 0]), ([- 2, 3 :: int], [0, 1 :: nat])]) =
        Inr (overall_accuracy eqs))"
proof -
  let ?bs = "[([1, - 1], [0, 0]), ([- 2, 3 :: int], [0, 1 :: nat])]"
  let ?s = "fresh (- 5) 0 0 :: (int, int, nat, nat) session"
  have f: "fst (validation_pass demo ?s ?bs (0, 0)) = Inr (- 5, 3 / 2)"
    by (simp add: run_defs)
  then have vp: "validation_pass demo ?s ?bs (0, 0) =
      (Inr (- 5, 3 / 2), snd (validation_pass demo ?s ?bs (0, 0)))"
    by (metis prod.collapse)
  have ne: "?bs \<noteq> []" by simp
  have sz: "\<forall>b\<in>set ?bs. length (snd b) = 2" by simp
  have pos: "(0 :: nat) < 2" by simp
  from mean_of_batch_accuracies
    [of demo ?s ?bs "- 5" "3 / 2" "snd (validation_pass demo ?s ?bs (0, 0))" 2]
  have "\<exists>eqs. validation_batch_equals demo ?s ?bs = map Inr eqs \<and>
      py_div (3 / 2) (length ?bs) = Inr (overall_accuracy eqs)"
    using vp ne sz pos by blast
  then show ?thesis using f by simp
qed

section \<open>The printed lines\<close>





lemma report_line_eq:
  "report_line e E a b c =
     ''Epoch: '' @ str_nat (e + 1) @ ''/'' @ str_nat E @ ''..  Training Loss: '' @ format_3f a @
     ''..  Test Loss: '' @ format_3f b @ ''..  Test Accuracy: '' @ format_3f c"
  by (simp add: report_line_def)


lemma report_line_prefix:
  "prefix (''Epoch: '' @ str_nat (e + 1) @ ''/'' @ str_nat E @ ''.. '') (report_line e E a b c)"
  unfolding report_line_eq by (simp add: prefix_def)


subsection \<open>What a run prints\<close>

lemma for_range_stdout:
  assumes body: "\<And>e s r s'. body e s = (r, s') \<Longrightarrow>
      (r = None \<longrightarrow> (\<exists>m. stdout s' = stdout s @ [line e m])) \<and>
      (r \<noteq> None \<longrightarrow> stdout s' = stdout s)"
  shows "for_range body [k..<k + n] s = (r, s') \<Longrightarrow>
     \<exists>ms. length ms \<le> n \<and> (r = None \<longrightarrow> length ms = n) \<and>
       stdout s' = stdout s @ map2 line [k..<k + length ms] ms"
proof (induction n arbitrary: k s)
  case 0
  then show ?case by simp
next
  case (Suc n)
  have up: "[k..<k + Suc n] = k # [Suc k..<Suc k + n]" by (subst upt_rec) simp
  obtain r1 s1 where b: "body k s = (r1, s1)" by (cases "body k s")
  show ?case
  proof (cases r1)
    case None
    with body [OF b] obtain m where m: "stdout s1 = stdout s @ [line k m]" by auto
    from Suc.prems [unfolded up] b None
    have "for_range body [Suc k..<Suc k + n] s1 = (r, s')" by simp
    from Suc.IH [OF this] obtain ms where ms: "length ms \<le> n" "r = None \<longrightarrow> length ms = n"
      "stdout s' = stdout s1 @ map2 line [Suc k..<Suc k + length ms] ms" by blast
    have "[k..<k + Suc (length ms)] = k # [Suc k..<Suc k + length ms]"
      by (subst upt_rec) simp
    then have z: "map2 line [k..<k + Suc (length ms)] (m # ms) =
        line k m # map2 line [Suc k..<Suc k + length ms] ms"
      by (simp only: zip_Cons_Cons list.map prod.case)
    have "stdout s' = stdout s @ (line k m # map2 line [Suc k..<Suc k + length ms] ms)"
      using ms(3) m by simp
    then have "stdout s' = stdout s @ map2 line [k..<k + length (m # ms)] (m # ms)"
      by (simp only: z length_Cons)
    then show ?thesis using ms(1,2) by (intro exI [of _ "m # ms"]) simp
  next
    case (Some err)
    with Suc.prems [unfolded up] b have "r = Some err" "s' = s1" by simp_all
    moreover have "stdout s1 = stdout s" using body [OF b] Some by simp
    ultimately show ?thesis by (intro exI [of _ "[]"]) simp
  qed
qed

lemma epoch_body_stdout:
  assumes "epoch_body fw trl tel E e s = (r, s')"
  shows "(r = None \<longrightarrow> (\<exists>m. stdout s' = stdout s @ [case m of (a, b, c) \<Rightarrow> report_line e E a b c])) \<and>
     (r \<noteq> None \<longrightarrow> stdout s' = stdout s)"
proof (cases r)
  case None
  let ?s1 = "fst (training_pass fw s trl 0)"
  from epoch_body_None [OF assms [unfolded None]] obtain tl ac s2 where
    vp: "validation_pass fw ?s1 tel (0, 0) = (Inr (tl, ac), s2)"
    and s': "s' = s2\<lparr>train_losses := train_losses s2 @
                [snd (training_pass fw s trl 0) / real (length trl)],
             test_losses := test_losses s2 @ [tl / real (length tel)],
             stdout := stdout s2 @
               [report_line e E (snd (training_pass fw s trl 0) / real (length trl))
                  (tl / real (length tel)) (ac / real (length tel))]\<rparr>"
    by blast
  have s2: "s2 = snd (validation_pass fw ?s1 tel (0, 0))" using vp by simp
  have "stdout s2 = stdout s"
    unfolding s2 using validation_pass_frame [of fw ?s1 tel "(0, 0)"]
      training_pass_frame [of fw s trl 0] by simp
  then have "stdout s' = stdout s @ [case (snd (training_pass fw s trl 0) / real (length trl),
      tl / real (length tel), ac / real (length tel)) of (a, b, c) \<Rightarrow> report_line e E a b c]"
    using s' by simp
  then show ?thesis using None by blast
next
  case (Some err)
  then show ?thesis using epoch_body_Some assms by blast
qed

lemma train_validate_stdout:
  assumes "train_validate fw trl tel E s = (r, s')"
  shows "\<exists>ms. length ms \<le> E \<and> (r = None \<longrightarrow> length ms = E) \<and>
     stdout s' = stdout s @
       map2 (\<lambda>e m. case m of (a, b, c) \<Rightarrow> report_line e E a b c) [0..<length ms] ms"
proof -
  have "for_range (\<lambda>e. epoch_body fw (trl e) (tel e) E e) [0..<0 + E] s = (r, s')"
    using assms by (simp add: train_validate_def)
  from for_range_stdout [of "\<lambda>e. epoch_body fw (trl e) (tel e) E e"
      "\<lambda>e m. case m of (a, b, c) \<Rightarrow> report_line e E a b c", OF epoch_body_stdout this]
  show ?thesis by simp
qed



subsection \<open>Two runs of the small classifier\<close>

lemma demo_run:
  "train_validate demo (\<lambda>e. [([1, 2], [1, 1]), ([3], [0])])
     (\<lambda>e. [([1, - 1], [0, 0]), ([- 2], [1])]) 2 (fresh 1 0 0) =
   (None, \<lparr>params = - 11, grads = 3, opt_state = 4, rng = 8, training = Training,
      train_losses = [3, 12], test_losses = [0, 0],
      stdout = [report_line 0 2 3 0 (1 / 4), report_line 1 2 12 0 (1 / 4)],
      trace = [ZeroGrad, Forward Training True, Backward, OptimizerStep,
               ZeroGrad, Forward Training True, Backward, OptimizerStep,
               Forward Training False, Forward Training False,
               ZeroGrad, Forward Training True, Backward, OptimizerStep,
               ZeroGrad, Forward Training True, Backward, OptimizerStep,
               Forward Training False, Forward Training False]\<rparr>)"
proof -
  have "[0..<2] = [0, Suc 0]" by (simp add: numeral_2_eq_2)
  then show ?thesis by (simp add: train_validate_def run_defs)
qed


lemma for_range_frame:
  assumes "\<And>e s. f (snd (body e s)) = f s"
  shows "f (snd (for_range body es s)) = f s"
proof (induction es arbitrary: s)
  case Nil
  then show ?case by simp
next
  case (Cons e es)
  obtain r s1 where b: "body e s = (r, s1)" by (cases "body e s")
  then have "f s1 = f s" using assms [of e s] by simp
  then show ?case using b Cons.IH [of s1] by (cases r) simp_all
qed

lemma epoch_body_training: "training (snd (epoch_body fw trl tel E e s)) = training s"
proof -
  let ?s1 = "fst (training_pass fw s trl 0)"
  have "training (snd (epoch_body fw trl tel E e s)) =
      training (snd (validation_pass fw ?s1 tel (0, 0)))"
    by (auto simp: epoch_body_def py_div_def Let_def split: prod.splits sum.splits)
  then show ?thesis
    using validation_pass_frame [of fw ?s1 tel "(0, 0)"] training_pass_frame [of fw s trl 0]
    by simp
qed

section \<open>The mode of the model during validation\<close>

text \<open>
  C1. The loop of the training cells of Part 5 never calls \<open>model.eval()\<close> or
  \<open>model.train()\<close>: a run leaves \<open>model.training\<close> as it found it, and a fresh model is
  in training mode. Every forward pass of a validation pass is made in the mode that the
  pass began in, so, from a fresh model, in training mode. On the small classifier, one
  epoch over two training batches and two validation batches makes both validation
  forward passes in training mode.
\<close>

theorem validation_runs_in_training_mode:
  "training (snd (train_validate fw trl tel E s)) = training s \<and>
   training (fresh p0 o0 r0 :: ('p, 'g::monoid_add, 'o, 'r) session) = Training \<and>
   (\<exists>n. n \<le> length bs \<and>
      trace (snd (validation_pass fw s bs acc)) =
        trace s @ replicate n (Forward (training s) False)) \<and>
   trace (snd (epoch_body demo [([1, 2], [1, 1]), ([3], [0])]
      [([1, - 1], [0, 0]), ([- 2], [1])] 1 0 (fresh 1 0 0))) =
     [ZeroGrad, Forward Training True, Backward, OptimizerStep,
      ZeroGrad, Forward Training True, Backward, OptimizerStep,
      Forward Training False, Forward Training False]"
proof -
  have "training (snd (train_validate fw trl tel E s)) = training s"
    unfolding train_validate_def
    by (rule for_range_frame [where f = training]) (rule epoch_body_training)
  moreover have "training (fresh p0 o0 r0 :: ('p, 'g, 'o, 'r) session) = Training"
    by (simp add: fresh_def)
  moreover have "trace (snd (epoch_body demo [([1, 2], [1, 1]), ([3], [0])]
      [([1, - 1], [0, 0]), ([- 2], [1])] 1 0 (fresh 1 0 0))) =
     [ZeroGrad, Forward Training True, Backward, OptimizerStep,
      ZeroGrad, Forward Training True, Backward, OptimizerStep,
      Forward Training False, Forward Training False]"
    unfolding demo_epoch by simp
  ultimately show ?thesis
    using validation_pass_trace [of bs fw s acc] by blast
qed

section \<open>The form of the output\<close>




section \<open>The epoch counter\<close>

text \<open>
  C10. The counter printed at the head of a report line is the loop index plus one: in
  a run of \<open>E\<close> epochs the line with index \<open>i\<close> begins \<open>Epoch: <i+1>/<E>.. \<close>, so a
  run that goes through its \<open>E > 0\<close> epochs prints \<open>E\<close> lines, the first beginning
  \<open>Epoch: 1/<E>.. \<close> and the last \<open>Epoch: <E>/<E>.. \<close>.
\<close>

theorem epoch_counter_one_based:
  assumes "train_validate fw trl tel E (fresh p0 o0 r0) = (r, s')"
  shows "(\<forall>i<length (stdout s').
        prefix (''Epoch: '' @ str_nat (i + 1) @ ''/'' @ str_nat E @ ''.. '') (stdout s' ! i)) \<and>
     (r = None \<and> 0 < E \<longrightarrow>
        length (stdout s') = E \<and>
        prefix (''Epoch: 1/'' @ str_nat E @ ''.. '') (hd (stdout s')) \<and>
        prefix (''Epoch: '' @ str_nat E @ ''/'' @ str_nat E @ ''.. '') (last (stdout s')))"
proof -
  from train_validate_stdout [OF assms] obtain ms where
    ms: "r = None \<longrightarrow> length ms = E"
    and out: "stdout s' =
      map2 (\<lambda>e m. case m of (a, b, c) \<Rightarrow> report_line e E a b c) [0..<length ms] ms"
    by (auto simp: fresh_def)
  have len: "length (stdout s') = length ms" unfolding out by simp
  have nth: "prefix (''Epoch: '' @ str_nat (i + 1) @ ''/'' @ str_nat E @ ''.. '') (stdout s' ! i)"
    if "i < length (stdout s')" for i
  proof -
    from that have i: "i < length ms" using len by simp
    obtain a b c where m: "ms ! i = (a, b, c)" by (cases "ms ! i")
    have "stdout s' ! i = report_line i E a b c" unfolding out using i m by simp
    then show ?thesis using report_line_prefix [of i E a b c] by simp
  qed
  have one: "str_nat (Suc 0) = ''1''" by (simp add: str_nat.simps digit_def)
  have "length (stdout s') = E \<and>
      prefix (''Epoch: 1/'' @ str_nat E @ ''.. '') (hd (stdout s')) \<and>
      prefix (''Epoch: '' @ str_nat E @ ''/'' @ str_nat E @ ''.. '') (last (stdout s'))"
    if "r = None" and "0 < E"
  proof -
    have l: "length (stdout s') = E" using that(1) ms len by simp
    then have ne: "stdout s' \<noteq> []" using that(2) by auto
    have "prefix (''Epoch: '' @ str_nat (0 + 1) @ ''/'' @ str_nat E @ ''.. '') (stdout s' ! 0)"
      using nth [of 0] l that(2) by simp
    then have h: "prefix (''Epoch: 1/'' @ str_nat E @ ''.. '') (hd (stdout s'))"
      using ne by (simp add: hd_conv_nth one)
    have "prefix (''Epoch: '' @ str_nat (E - 1 + 1) @ ''/'' @ str_nat E @ ''.. '')
        (stdout s' ! (E - 1))"
      using nth [of "E - 1"] l that(2) by simp
    then have "prefix (''Epoch: '' @ str_nat E @ ''/'' @ str_nat E @ ''.. '') (last (stdout s'))"
      using ne l that(2) by (simp add: last_conv_nth)
    then show ?thesis using l h by simp
  qed
  then show ?thesis using nth by blast
qed

theorem epoch_counter_one_based_witness:
  "fst (train_validate demo (\<lambda>e. [([1, 2], [1, 1]), ([3], [0])])
     (\<lambda>e. [([1, - 1], [0, 0]), ([- 2], [1])]) 2 (fresh 1 0 0)) = None \<and> (0 :: nat) < 2 \<and>
   length (stdout (snd (train_validate demo (\<lambda>e. [([1, 2], [1, 1]), ([3], [0])])
     (\<lambda>e. [([1, - 1], [0, 0]), ([- 2], [1])]) 2 (fresh 1 0 0)))) = 2 \<and>
   prefix ''Epoch: 1/2.. '' (hd (stdout (snd (train_validate demo
     (\<lambda>e. [([1, 2], [1, 1]), ([3], [0])]) (\<lambda>e. [([1, - 1], [0, 0]), ([- 2], [1])]) 2
     (fresh 1 0 0))))) \<and>
   prefix ''Epoch: 2/2.. '' (last (stdout (snd (train_validate demo
     (\<lambda>e. [([1, 2], [1, 1]), ([3], [0])]) (\<lambda>e. [([1, - 1], [0, 0]), ([- 2], [1])]) 2
     (fresh 1 0 0)))))"
proof -
  note h = demo_run
  have two: "str_nat 2 = ''2''" by (simp add: str_nat.simps digit_def)
  have pos: "(0 :: nat) < 2" by simp
  from epoch_counter_one_based [OF h] pos have
    "length (stdout (snd (train_validate demo (\<lambda>e. [([1, 2], [1, 1]), ([3], [0])])
       (\<lambda>e. [([1, - 1], [0, 0]), ([- 2], [1])]) 2 (fresh 1 0 0)))) = 2 \<and>
     prefix (''Epoch: 1/'' @ str_nat 2 @ ''.. '') (hd (stdout (snd (train_validate demo
       (\<lambda>e. [([1, 2], [1, 1]), ([3], [0])]) (\<lambda>e. [([1, - 1], [0, 0]), ([- 2], [1])]) 2
       (fresh 1 0 0))))) \<and>
     prefix (''Epoch: '' @ str_nat 2 @ ''/'' @ str_nat 2 @ ''.. '') (last (stdout (snd
       (train_validate demo (\<lambda>e. [([1, 2], [1, 1]), ([3], [0])])
       (\<lambda>e. [([1, - 1], [0, 0]), ([- 2], [1])]) 2 (fresh 1 0 0)))))"
    unfolding h by simp
  then show ?thesis unfolding two using h by simp
qed

end
